theory Spec2Isabelle
  imports Main "HOL-Library.Word"
begin

section \<open>binconvert: PNG to BIN container and back (png\_to\_bin.py)\<close>

text \<open>
  The two operations of \<^verbatim>\<open>src/png_to_bin.py\<close>, \<^verbatim>\<open>convert_png_to_bin\<close> and
  \<^verbatim>\<open>read_bin_to_png\<close>, as functions over an explicit file system. Each returns the
  file system after the call together with the \<^verbatim>\<open>(success, message)\<close> pair. An
  exception is a value of type \<open>exn\<close>; the body of each \<^verbatim>\<open>try\<close> block is a function
  of its own (\<open>convert_png_to_bin_try\<close>, \<open>read_bin_to_png_try\<close>) whose result is
  \<open>Inl e\<close> when the block raises \<open>e\<close>, and the \<^verbatim>\<open>except Exception\<close> clause is the
  case distinction on that result.

  The imaging library (Pillow) is not part of the repository. Its four entry points used
  by the code are the fields of the record \<open>pil\<close>, a parameter of both operations, so
  that every theorem holds for whatever the library does, and says which results of the
  library it relies on.
\<close>

subsection \<open>Bytes, exceptions, struct\<close>

type_synonym byte = "8 word"
type_synonym bytes = "byte list"

text \<open>\<^verbatim>\<open>repr\<close> of a string without quotes or escapes in it: the string in single
  quotes, as exception messages show names and paths.\<close>

definition quoted :: "string \<Rightarrow> string" where
  "quoted s = CHR 0x27 # s @ [CHR 0x27]"

text \<open>The exceptions the model can raise, each with its \<^verbatim>\<open>str(e)\<close>. All are
  subclasses of \<^verbatim>\<open>Exception\<close>. \<open>PILError\<close> stands for any exception raised inside
  the imaging library.\<close>

datatype exn =
    struct_error string
  | ValueError string
  | FileNotFoundError string
  | IsADirectoryError string
  | PILError string

fun str :: "exn \<Rightarrow> string" where
  "str (struct_error m) = m"
| "str (ValueError m) = m"
| "str (FileNotFoundError m) = m"
| "str (IsADirectoryError m) = m"
| "str (PILError m) = m"

text \<open>\<^verbatim>\<open>b'PNG\x00'\<close>\<close>

definition magic :: bytes where
  "magic = [0x50, 0x4E, 0x47, 0x00]"

text \<open>The four bytes of \<open>n\<close>, least significant first (the payload of
  \<^verbatim>\<open>struct.pack('<I', n)\<close>), and the value of a little-endian byte string.\<close>

definition u32_le :: "nat \<Rightarrow> bytes" where
  "u32_le n = [word_of_nat (n mod 256), word_of_nat (n div 256 mod 256),
               word_of_nat (n div 65536 mod 256), word_of_nat (n div 16777216 mod 256)]"

fun le_value :: "bytes \<Rightarrow> nat" where
  "le_value [] = 0"
| "le_value (b # bs) = unat b + 256 * le_value bs"

text \<open>\<^verbatim>\<open>struct.pack('<I', n)\<close> and \<^verbatim>\<open>struct.pack('B', n)\<close>: \<^verbatim>\<open>struct.error\<close>
  when \<open>n\<close> does not fit the field. The arguments in this program are image dimensions
  and lengths, never negative, hence \<open>nat\<close>.\<close>

definition pack_I :: "nat \<Rightarrow> exn + bytes" where
  "pack_I n =
     (if n \<le> 4294967295 then Inr (u32_le n)
      else Inl (struct_error (quoted ''I'' @ '' format requires 0 <= number <= 4294967295'')))"

definition pack_B :: "nat \<Rightarrow> exn + bytes" where
  "pack_B n =
     (if n \<le> 255 then Inr [word_of_nat n]
      else Inl (struct_error ''ubyte format requires 0 <= number <= 255''))"

text \<open>\<^verbatim>\<open>struct.unpack('<I', b)[0]\<close> and \<^verbatim>\<open>struct.unpack('B', b)[0]\<close>:
  \<^verbatim>\<open>struct.error\<close> unless the buffer has exactly the size of the format.\<close>

definition unpack_I :: "bytes \<Rightarrow> exn + nat" where
  "unpack_I b =
     (if length b = 4 then Inr (le_value b)
      else Inl (struct_error ''unpack requires a buffer of 4 bytes''))"

definition unpack_B :: "bytes \<Rightarrow> exn + nat" where
  "unpack_B b =
     (if length b = 1 then Inr (le_value b)
      else Inl (struct_error ''unpack requires a buffer of 1 bytes''))"

subsection \<open>Paths (pathlib) and the file system\<close>

text \<open>A path is the string \<^verbatim>\<open>str(Path(p))\<close>, in pathlib's normal form for POSIX
  (no trailing or doubled separator). \<open>path_name\<close>, \<open>suffix\<close> and \<open>with_suffix\<close>
  follow \<^verbatim>\<open>PurePath.name\<close>, \<^verbatim>\<open>.suffix\<close> and \<^verbatim>\<open>.with_suffix\<close> of CPython 3.11.\<close>

type_synonym path = string

definition path_name :: "path \<Rightarrow> string" where
  "path_name p =
     (if p = ''.'' then [] else rev (takeWhile (\<lambda>c. c \<noteq> CHR ''/'') (rev p)))"

text \<open>\<^verbatim>\<open>name.rfind('.')\<close>: the index of the last dot, \<open>None\<close> for Python's \<open>-1\<close>.\<close>

definition rfind_dot :: "string \<Rightarrow> nat option" where
  "rfind_dot name =
     (let k = length (takeWhile (\<lambda>c. c \<noteq> CHR ''.'') (rev name))
      in if k = length name then None else Some (length name - 1 - k))"

definition suffix :: "path \<Rightarrow> string" where
  "suffix p =
     (let name = path_name p
      in case rfind_dot name of
           None \<Rightarrow> []
         | Some i \<Rightarrow> if 0 < i \<and> i + 1 < length name then drop i name else [])"

definition with_suffix :: "path \<Rightarrow> string \<Rightarrow> exn + path" where
  "with_suffix p sfx =
     (let name = path_name p
      in if name = [] then Inl (ValueError (''PosixPath('' @ quoted p @ '') has an empty name''))
         else
           let old_suffix = suffix p;
               name' = (if old_suffix = [] then name @ sfx
                        else take (length name - length old_suffix) name @ sfx)
           in Inr (take (length p - length name) p @ name'))"

text \<open>\<^verbatim>\<open>str.lower\<close> on the ASCII letters; no other character lowers to one of
  \<^verbatim>\<open>.png\<close>.\<close>

definition lower_char :: "char \<Rightarrow> char" where
  "lower_char c =
     (let n = (of_char c :: nat) in if 65 \<le> n \<and> n \<le> 90 then char_of (n + 32) else c)"

definition lower :: "string \<Rightarrow> string" where
  "lower s = map lower_char s"

text \<open>The file system: a path names a regular file with its contents, a directory, or
  nothing. Permissions and missing parent directories are not modelled.\<close>

datatype node = File bytes | Dir

type_synonym fs = "path \<Rightarrow> node option"

definition exists_path :: "fs \<Rightarrow> path \<Rightarrow> bool" where
  "exists_path fs p = (fs p \<noteq> None)"

text \<open>\<^verbatim>\<open>open(p, 'rb')\<close> followed by reads: the contents, or the \<^verbatim>\<open>OSError\<close>.\<close>

definition open_rb :: "fs \<Rightarrow> path \<Rightarrow> exn + bytes" where
  "open_rb fs p =
     (case fs p of
        None \<Rightarrow> Inl (FileNotFoundError (''[Errno 2] No such file or directory: '' @ quoted p))
      | Some Dir \<Rightarrow> Inl (IsADirectoryError (''[Errno 21] Is a directory: '' @ quoted p))
      | Some (File content) \<Rightarrow> Inr content)"

text \<open>\<^verbatim>\<open>open(p, 'wb')\<close>: creates or truncates a regular file, fails on a directory.\<close>

definition open_wb :: "fs \<Rightarrow> path \<Rightarrow> exn + fs" where
  "open_wb fs p =
     (case fs p of
        Some Dir \<Rightarrow> Inl (IsADirectoryError (''[Errno 21] Is a directory: '' @ quoted p))
      | _ \<Rightarrow> Inr (fs(p \<mapsto> File [])))"

text \<open>\<^verbatim>\<open>f.read(n)\<close> on the rest of a file: up to \<open>n\<close> bytes, and what is left.\<close>

definition read :: "bytes \<Rightarrow> nat \<Rightarrow> bytes \<times> bytes" where
  "read f n = (take n f, drop n f)"

text \<open>A sequence of \<^verbatim>\<open>f.write(x)\<close> statements on an open file. Each argument is
  evaluated first and may raise; the bytes written before stay in the file.\<close>

fun writes :: "bytes \<Rightarrow> (exn + bytes) list \<Rightarrow> bytes \<times> exn option" where
  "writes f [] = (f, None)"
| "writes f (Inl e # xs) = (f, Some e)"
| "writes f (Inr b # xs) = writes (f @ b) xs"

subsection \<open>The imaging library\<close>

text \<open>An image as the program sees it: \<^verbatim>\<open>img.mode\<close>, \<^verbatim>\<open>img.size\<close> and
  \<^verbatim>\<open>img.tobytes()\<close>.\<close>

record image =
  mode :: string
  size_wh :: "nat \<times> nat"
  tobytes :: bytes

text \<open>The library: \<^verbatim>\<open>Image.open\<close> (on the bytes of the file, pixel data loaded),
  \<^verbatim>\<open>img.convert(mode)\<close>, \<^verbatim>\<open>Image.frombytes(mode, size, data)\<close> and the encoder
  behind \<^verbatim>\<open>img.save(path, format)\<close>.\<close>

record pil =
  Image_open :: "bytes \<Rightarrow> exn + image"
  convert :: "image \<Rightarrow> string \<Rightarrow> exn + image"
  Image_frombytes :: "string \<Rightarrow> nat \<times> nat \<Rightarrow> bytes \<Rightarrow> exn + image"
  save :: "image \<Rightarrow> string \<Rightarrow> exn + bytes"

text \<open>\<^verbatim>\<open>Image.open(path)\<close> opens the file itself.\<close>

definition Image_open_path :: "pil \<Rightarrow> fs \<Rightarrow> path \<Rightarrow> exn + image" where
  "Image_open_path lib fs p =
     (case open_rb fs p of Inl e \<Rightarrow> Inl e | Inr content \<Rightarrow> Image_open lib content)"

text \<open>\<^verbatim>\<open>img.save(path, format)\<close> opens the destination for writing and encodes into
  it. What a failed encoder leaves at the destination is the library's business; the
  model keeps the file system as it was.\<close>

definition save_path :: "pil \<Rightarrow> image \<Rightarrow> fs \<Rightarrow> path \<Rightarrow> string \<Rightarrow> fs \<times> exn option" where
  "save_path lib img fs p fmt =
     (case open_wb fs p of
        Inl e \<Rightarrow> (fs, Some e)
      | Inr fs' \<Rightarrow>
          (case save lib img fmt of
             Inl e \<Rightarrow> (fs, Some e)
           | Inr out \<Rightarrow> (fs'(p \<mapsto> File out), None)))"

subsection \<open>\<^verbatim>\<open>convert_png_to_bin\<close>\<close>

text \<open>Lines 54 to 67: what the \<^verbatim>\<open>with open(bin_path, 'wb')\<close> block writes, and the
  exception that ended it, if any.\<close>

definition write_block :: "bool \<Rightarrow> nat \<Rightarrow> nat \<Rightarrow> bytes \<Rightarrow> bytes \<times> exn option" where
  "write_block include_metadata width height pixel_data =
     (if include_metadata then
        writes [] [Inr magic, pack_I width, pack_I height, pack_B 4,
                   pack_I (length pixel_data), Inr pixel_data]
      else writes [] [Inr pixel_data])"

text \<open>Lines 27 to 69, the body of the \<^verbatim>\<open>try\<close>: a returned pair is \<open>Inr\<close>, a raised
  exception \<open>Inl\<close>.\<close>

definition convert_png_to_bin_try ::
  "pil \<Rightarrow> fs \<Rightarrow> path \<Rightarrow> path option \<Rightarrow> bool \<Rightarrow> fs \<times> (exn + bool \<times> string)" where
  "convert_png_to_bin_try lib fs png_path bin_path include_metadata =
     (if \<not> exists_path fs png_path then
        (fs, Inr (False, ''PNG file not found: '' @ png_path))
      else if \<not> lower (suffix png_path) = ''.png'' then
        (fs, Inr (False, ''File is not a PNG: '' @ png_path))
      else
       (case Image_open_path lib fs png_path of
          Inl e \<Rightarrow> (fs, Inl e)
        | Inr img \<Rightarrow>
       (case (case bin_path of None \<Rightarrow> with_suffix png_path ''.bin'' | Some p \<Rightarrow> Inr p) of
          Inl e \<Rightarrow> (fs, Inl e)
        | Inr bin_path \<Rightarrow>
       (case (if mode img \<noteq> ''RGBA'' then convert lib img ''RGBA'' else Inr img) of
          Inl e \<Rightarrow> (fs, Inl e)
        | Inr img \<Rightarrow>
       (case size_wh img of (width, height) \<Rightarrow>
        let pixel_data = tobytes img in
       (case open_wb fs bin_path of
          Inl e \<Rightarrow> (fs, Inl e)
        | Inr fs' \<Rightarrow>
       (case write_block include_metadata width height pixel_data of
          (written, Some e) \<Rightarrow> (fs'(bin_path \<mapsto> File written), Inl e)
        | (written, None) \<Rightarrow>
            (fs'(bin_path \<mapsto> File written),
             Inr (True, ''Successfully converted: '' @ png_path @ '' -> '' @ bin_path)))))))))"

text \<open>Lines 26 and 71 to 72: \<^verbatim>\<open>except Exception as e\<close>. The result keeps the sum
  type, so that an exception leaving the function would be a value \<open>Inl e\<close>.\<close>

definition convert_png_to_bin ::
  "pil \<Rightarrow> fs \<Rightarrow> path \<Rightarrow> path option \<Rightarrow> bool \<Rightarrow> fs \<times> (exn + bool \<times> string)" where
  "convert_png_to_bin lib fs png_path bin_path include_metadata =
     (case convert_png_to_bin_try lib fs png_path bin_path include_metadata of
        (fs', Inl e) \<Rightarrow> (fs', Inr (False, ''Error converting PNG: '' @ str e))
      | (fs', Inr r) \<Rightarrow> (fs', Inr r))"

subsection \<open>\<^verbatim>\<open>read_bin_to_png\<close>\<close>

text \<open>Lines 100 to 115, the \<^verbatim>\<open>with open(bin_path, 'rb')\<close> block on the contents of
  the file: it raises (\<open>Inl\<close>), returns early (\<open>Inr (Inl r)\<close>), or falls through with
  \<^verbatim>\<open>width\<close>, \<^verbatim>\<open>height\<close> and \<^verbatim>\<open>pixel_data\<close> bound. \<^verbatim>\<open>mode_bytes\<close> is read and
  not used again.\<close>

definition read_block ::
  "bytes \<Rightarrow> bool \<Rightarrow> exn + ((bool \<times> string) + (nat \<times> nat \<times> bytes))" where
  "read_block f has_metadata =
     (if has_metadata then
       (case read f 4 of (magic', f) \<Rightarrow>
        if magic' \<noteq> magic then
          Inr (Inl (False, ''Invalid BIN file format (missing PNG magic number)''))
        else
       (case read f 4 of (b, f) \<Rightarrow>
       (case unpack_I b of Inl e \<Rightarrow> Inl e | Inr width \<Rightarrow>
       (case read f 4 of (b, f) \<Rightarrow>
       (case unpack_I b of Inl e \<Rightarrow> Inl e | Inr height \<Rightarrow>
       (case read f 1 of (b, f) \<Rightarrow>
       (case unpack_B b of Inl e \<Rightarrow> Inl e | Inr mode_bytes \<Rightarrow>
       (case read f 4 of (b, f) \<Rightarrow>
       (case unpack_I b of Inl e \<Rightarrow> Inl e | Inr data_size \<Rightarrow>
       (case read f data_size of (pixel_data, f) \<Rightarrow>
          Inr (Inr (width, height, pixel_data))))))))))))
      else
        Inr (Inl (False, ''Cannot read raw BIN without metadata (width/height unknown)'')))"

text \<open>Lines 89 to 121, the body of the \<^verbatim>\<open>try\<close>.\<close>

definition read_bin_to_png_try ::
  "pil \<Rightarrow> fs \<Rightarrow> path \<Rightarrow> path option \<Rightarrow> bool \<Rightarrow> fs \<times> (exn + bool \<times> string)" where
  "read_bin_to_png_try lib fs bin_path png_path has_metadata =
     (if \<not> exists_path fs bin_path then
        (fs, Inr (False, ''BIN file not found: '' @ bin_path))
      else
       (case (case png_path of None \<Rightarrow> with_suffix bin_path ''.png'' | Some p \<Rightarrow> Inr p) of
          Inl e \<Rightarrow> (fs, Inl e)
        | Inr png_path \<Rightarrow>
       (case open_rb fs bin_path of
          Inl e \<Rightarrow> (fs, Inl e)
        | Inr f \<Rightarrow>
       (case read_block f has_metadata of
          Inl e \<Rightarrow> (fs, Inl e)
        | Inr (Inl r) \<Rightarrow> (fs, Inr r)
        | Inr (Inr (width, height, pixel_data)) \<Rightarrow>
       (case Image_frombytes lib ''RGBA'' (width, height) pixel_data of
          Inl e \<Rightarrow> (fs, Inl e)
        | Inr img \<Rightarrow>
       (case save_path lib img fs png_path ''PNG'' of
          (fs', Some e) \<Rightarrow> (fs', Inl e)
        | (fs', None) \<Rightarrow>
            (fs', Inr (True, ''Successfully converted: '' @ bin_path @ '' -> '' @ png_path))))))))"

text \<open>Lines 88 and 123 to 124: \<^verbatim>\<open>except Exception as e\<close>.\<close>

definition read_bin_to_png ::
  "pil \<Rightarrow> fs \<Rightarrow> path \<Rightarrow> path option \<Rightarrow> bool \<Rightarrow> fs \<times> (exn + bool \<times> string)" where
  "read_bin_to_png lib fs bin_path png_path has_metadata =
     (case read_bin_to_png_try lib fs bin_path png_path has_metadata of
        (fs', Inl e) \<Rightarrow> (fs', Inr (False, ''Error converting BIN to PNG: '' @ str e))
      | (fs', Inr r) \<Rightarrow> (fs', Inr r))"

subsection \<open>An instance of the library\<close>

text \<open>A small imaging library to run the operations on concrete inputs. Its image
  files are not compressed: one byte for the number of bands (3 for RGB, 4 for RGBA),
  width and height as four little-endian bytes each, then the pixel bytes. Conversion to
  RGBA gives every RGB pixel the alpha value 255; \<open>frombytes\<close> needs at least
  \<open>width * height * 4\<close> bytes for an RGBA image and fills the image from them.\<close>

definition raw_open :: "bytes \<Rightarrow> exn + image" where
  "raw_open c =
     (let bands = le_value (take 1 c);
          w = le_value (take 4 (drop 1 c));
          h = le_value (take 4 (drop 5 c));
          data = drop 9 c
      in if length c < 9 then Inl (PILError ''cannot identify image file'')
         else if bands = 4 \<and> length data = w * h * 4 then
           Inr \<lparr>mode = ''RGBA'', size_wh = (w, h), tobytes = data\<rparr>
         else if bands = 3 \<and> length data = w * h * 3 then
           Inr \<lparr>mode = ''RGB'', size_wh = (w, h), tobytes = data\<rparr>
         else Inl (PILError ''cannot identify image file''))"

fun add_alpha :: "bytes \<Rightarrow> bytes" where
  "add_alpha (r # g # b # rest) = r # g # b # 255 # add_alpha rest"
| "add_alpha rest = []"

definition raw_convert :: "image \<Rightarrow> string \<Rightarrow> exn + image" where
  "raw_convert img m =
     (if mode img = m then Inr img
      else if mode img = ''RGB'' \<and> m = ''RGBA'' then
        Inr \<lparr>mode = ''RGBA'', size_wh = size_wh img, tobytes = add_alpha (tobytes img)\<rparr>
      else Inl (ValueError ''conversion not supported''))"

definition raw_frombytes :: "string \<Rightarrow> nat \<times> nat \<Rightarrow> bytes \<Rightarrow> exn + image" where
  "raw_frombytes m sz data =
     (case sz of (w, h) \<Rightarrow>
        if m = ''RGBA'' \<and> w * h * 4 \<le> length data then
          Inr \<lparr>mode = ''RGBA'', size_wh = (w, h), tobytes = take (w * h * 4) data\<rparr>
        else Inl (ValueError ''not enough image data''))"

definition raw_save :: "image \<Rightarrow> string \<Rightarrow> exn + bytes" where
  "raw_save img fmt =
     (case size_wh img of (w, h) \<Rightarrow>
        if fmt = ''PNG'' \<and> mode img = ''RGBA'' then
          Inr ([4] @ u32_le w @ u32_le h @ tobytes img)
        else Inl (PILError ''cannot write image''))"

definition raw_pil :: pil where
  "raw_pil = \<lparr>Image_open = raw_open, convert = raw_convert,
              Image_frombytes = raw_frombytes, save = raw_save\<rparr>"

text \<open>Image files of this library: a 2 by 1 RGB image, a 1 by 1 RGBA image with the
  pixel (10, 20, 30, 40), and the black RGBA image of a given size.\<close>

definition rgb_2x1 :: bytes where
  "rgb_2x1 = [3, 2, 0, 0, 0, 1, 0, 0, 0, 255, 0, 0, 1, 2, 3]"

definition rgba_1x1 :: bytes where
  "rgba_1x1 = [4, 1, 0, 0, 0, 1, 0, 0, 0, 10, 20, 30, 40]"

definition blank :: "nat \<Rightarrow> bytes" where
  "blank n = replicate n 0"

definition black_rgba :: "nat \<Rightarrow> nat \<Rightarrow> bytes" where
  "black_rgba w h = [4] @ u32_le w @ u32_le h @ blank (w * h * 4)"

text \<open>Unfolding the operations on concrete inputs.\<close>

lemmas run_defs =
  convert_png_to_bin_def convert_png_to_bin_try_def read_bin_to_png_def
  read_bin_to_png_try_def exists_path_def Image_open_path_def save_path_def
  open_rb_def open_wb_def write_block_def read_block_def read_def
  pack_I_def pack_B_def unpack_I_def unpack_B_def magic_def u32_le_def
  suffix_def path_name_def rfind_dot_def lower_def lower_char_def with_suffix_def
  raw_pil_def raw_open_def raw_convert_def raw_frombytes_def raw_save_def
  rgb_2x1_def rgba_1x1_def black_rgba_def quoted_def Let_def

section \<open>Properties\<close>

subsection \<open>Auxiliary facts\<close>

lemma length_blank: "length (blank n) = n"
  by (simp add: blank_def)

lemma length_u32_le: "length (u32_le n) = 4"
  by (simp add: u32_le_def)

lemma le_value_u32_le:
  assumes n: "n \<le> 4294967295"
  shows "le_value (u32_le n) = n"
proof -
  have d2: "n div 65536 = n div 256 div 256"
    and d3: "n div 16777216 = n div 256 div 256 div 256"
    by (simp_all add: div_mult2_eq)
  have top: "n div 256 div 256 div 256 < 256"
    using n by (simp add: div_mult2_eq less_mult_imp_div_less)
  have "le_value (u32_le n) =
        n mod 256 + 256 * (n div 256 mod 256 + 256 * (n div 256 div 256 mod 256 +
          256 * (n div 256 div 256 div 256 mod 256)))"
    unfolding d2 d3 u32_le_def by (simp add: unat_of_nat)
  also have "\<dots> = n"
    using top by simp
  finally show ?thesis .
qed

lemma unpack_I_u32_le: "n \<le> 4294967295 \<Longrightarrow> unpack_I (u32_le n) = Inr n"
  by (simp add: unpack_I_def length_u32_le le_value_u32_le)


lemma read_block_container:
  "width \<le> 4294967295 \<Longrightarrow> height \<le> 4294967295 \<Longrightarrow> data_size \<le> 4294967295 \<Longrightarrow>
   read_block (magic @ u32_le width @ u32_le height @ m # u32_le data_size @ rest) True =
     Inr (Inr (width, height, take data_size rest))"
  by (simp add: read_block_def read_def unpack_I_u32_le unpack_B_def length_u32_le magic_def)


lemma read_bin_to_png_parsed:
  assumes "fs bin_path = Some (File content)"
    and "(case png_path of None \<Rightarrow> with_suffix bin_path ''.png'' | Some p \<Rightarrow> Inr p) = Inr out"
    and "read_block content has_metadata = Inr (Inr (w, h, d))"
  shows "read_bin_to_png lib fs bin_path png_path has_metadata =
    (case Image_frombytes lib ''RGBA'' (w, h) d of
       Inl e \<Rightarrow> (fs, Inr (False, ''Error converting BIN to PNG: '' @ str e))
     | Inr img \<Rightarrow>
        (case save_path lib img fs out ''PNG'' of
           (fs', Some e) \<Rightarrow> (fs', Inr (False, ''Error converting BIN to PNG: '' @ str e))
         | (fs', None) \<Rightarrow>
           (fs', Inr (True, ''Successfully converted: '' @ bin_path @ '' -> '' @ out))))"
  using assms
  by (simp add: read_bin_to_png_def read_bin_to_png_try_def exists_path_def open_rb_def
      split: sum.split prod.split option.split)


lemma read_bin_to_png_early:
  assumes "fs bin_path = Some (File content)"
    and "path_name bin_path \<noteq> []"
    and "read_block content has_metadata = Inr (Inl r)"
  shows "read_bin_to_png lib fs bin_path png_path has_metadata = (fs, Inr r)"
  using assms
  by (simp add: read_bin_to_png_def read_bin_to_png_try_def exists_path_def open_rb_def
      with_suffix_def Let_def split: option.split)

lemma convert_png_to_bin_success_file:
  assumes "convert_png_to_bin lib fs png_path bin_path include_metadata = (fs_enc, Inr (True, m))"
    and "(case bin_path of None \<Rightarrow> with_suffix png_path ''.bin'' | Some p \<Rightarrow> Inr p) = Inr bin"
  shows "\<exists>written. fs_enc bin = Some (File written)"
  using assms
  by (auto simp: convert_png_to_bin_def convert_png_to_bin_try_def open_wb_def
      split: if_splits sum.splits prod.splits option.splits node.splits)

text \<open>The with block reads the byte at offset 12 and only its presence matters.\<close>

lemma read_block_mode_byte: "read_block (c[12 := b]) has_metadata = read_block c has_metadata"
  by (simp add: read_block_def read_def drop_update_swap unpack_B_def cong: sum.case_cong)

subsection \<open>Round trip through the container with header\<close>




subsection \<open>Layout of the container with header\<close>




subsection \<open>Decoding without header is unsupported\<close>

text \<open>
  Claim C3. For every content of an existing regular file (a regular file has a
  non-empty name), \<^verbatim>\<open>read_bin_to_png\<close> with \<^verbatim>\<open>has_metadata=False\<close> returns failure
  with the message that width and height are unknown, and leaves the file system as it
  was. In particular this is so for the file that a successful
  \<^verbatim>\<open>convert_png_to_bin\<close> with \<^verbatim>\<open>include_metadata=False\<close> has written, whatever the
  image.
\<close>

theorem headerless_decode_unsupported:
  "(fs bin_path = Some (File content) \<and> path_name bin_path \<noteq> [] \<longrightarrow>
      read_bin_to_png lib fs bin_path png_path False =
        (fs, Inr (False, ''Cannot read raw BIN without metadata (width/height unknown)'')))
   \<and> (convert_png_to_bin lib fs src dest False = (fs_enc, Inr (True, m))
        \<and> (case dest of None \<Rightarrow> with_suffix src ''.bin'' | Some p \<Rightarrow> Inr p) = Inr bin
        \<and> path_name bin \<noteq> [] \<longrightarrow>
      read_bin_to_png lib fs_enc bin png_path False =
        (fs_enc, Inr (False, ''Cannot read raw BIN without metadata (width/height unknown)'')))"
proof -
  have general: "read_bin_to_png lib fs' p png_path False =
        (fs', Inr (False, ''Cannot read raw BIN without metadata (width/height unknown)''))"
    if "fs' p = Some (File c)" and "path_name p \<noteq> []" for fs' p c
    using that by (simp add: read_bin_to_png_early read_block_def)
  show ?thesis
    using general convert_png_to_bin_success_file [of lib fs src dest False fs_enc m bin]
    by blast
qed

text \<open>
  The theorem at a four-byte file, and at the headerless container of the 2 by 1
  picture.
\<close>

theorem headerless_decode_unsupported_witness:
  "[''raw.bin'' \<mapsto> File [1, 2, 3, 4]] ''raw.bin'' = Some (File [1, 2, 3, 4])
   \<and> path_name ''raw.bin'' \<noteq> []
   \<and> read_bin_to_png raw_pil [''raw.bin'' \<mapsto> File [1, 2, 3, 4]] ''raw.bin'' None False =
       ([''raw.bin'' \<mapsto> File [1, 2, 3, 4]],
        Inr (False, ''Cannot read raw BIN without metadata (width/height unknown)''))
   \<and> convert_png_to_bin raw_pil [''d.png'' \<mapsto> File rgb_2x1] ''d.png'' None False =
       ([''d.png'' \<mapsto> File rgb_2x1, ''d.bin'' \<mapsto> File [255, 0, 0, 255, 1, 2, 3, 255]],
        Inr (True, ''Successfully converted: d.png -> d.bin''))
   \<and> read_bin_to_png raw_pil
        [''d.png'' \<mapsto> File rgb_2x1, ''d.bin'' \<mapsto> File [255, 0, 0, 255, 1, 2, 3, 255]]
        ''d.bin'' None False =
       ([''d.png'' \<mapsto> File rgb_2x1, ''d.bin'' \<mapsto> File [255, 0, 0, 255, 1, 2, 3, 255]],
        Inr (False, ''Cannot read raw BIN without metadata (width/height unknown)''))"
proof -
  let ?fs = "[''d.png'' \<mapsto> File rgb_2x1]"
  let ?enc = "[''d.png'' \<mapsto> File rgb_2x1, ''d.bin'' \<mapsto> File [255, 0, 0, 255, 1, 2, 3, 255]]"
  have stored: "[''raw.bin'' \<mapsto> File [1, 2, 3, 4]] ''raw.bin'' = Some (File [1, 2, 3, 4])"
    by simp
  have named: "path_name ''raw.bin'' \<noteq> []" "path_name ''d.bin'' \<noteq> []"
    by (simp_all add: run_defs)
  have enc: "convert_png_to_bin raw_pil ?fs ''d.png'' None False =
             (?enc, Inr (True, ''Successfully converted: d.png -> d.bin''))"
    by (simp add: run_defs)
  have dest: "(case None of None \<Rightarrow> with_suffix ''d.png'' ''.bin'' | Some p \<Rightarrow> Inr p) = Inr ''d.bin''"
    by (simp add: run_defs)
  from headerless_decode_unsupported [where fs = "[''raw.bin'' \<mapsto> File [1, 2, 3, 4]]"
      and bin_path = "''raw.bin''" and content = "[1, 2, 3, 4]" and lib = raw_pil
      and png_path = None]
  have first: "read_bin_to_png raw_pil [''raw.bin'' \<mapsto> File [1, 2, 3, 4]] ''raw.bin'' None False =
       ([''raw.bin'' \<mapsto> File [1, 2, 3, 4]],
        Inr (False, ''Cannot read raw BIN without metadata (width/height unknown)''))"
    using stored named by blast
  from headerless_decode_unsupported [where fs = ?fs and src = "''d.png''" and dest = None
      and fs_enc = ?enc and bin = "''d.bin''" and lib = raw_pil and png_path = None
      and m = "''Successfully converted: d.png -> d.bin''"]
  have second: "read_bin_to_png raw_pil ?enc ''d.bin'' None False =
       (?enc, Inr (False, ''Cannot read raw BIN without metadata (width/height unknown)''))"
    using enc dest named by blast
  from stored named first enc second show ?thesis
    by blast
qed

subsection \<open>Magic number\<close>

text \<open>
  Claim C4. If the first four bytes of the file (fewer, if the file is shorter) are not
  50 4E 47 00, \<^verbatim>\<open>read_bin_to_png\<close> with \<^verbatim>\<open>has_metadata=True\<close> returns failure with
  the message about the missing magic number, whatever the remaining bytes are.
\<close>

theorem magic_mismatch_rejected:
  assumes "fs bin_path = Some (File content)"
    and "path_name bin_path \<noteq> []"
    and "take 4 content \<noteq> [0x50, 0x4E, 0x47, 0x00]"
  shows "read_bin_to_png lib fs bin_path png_path True =
           (fs, Inr (False, ''Invalid BIN file format (missing PNG magic number)''))"
  using assms by (simp add: read_bin_to_png_early read_block_def read_def magic_def)

text \<open>
  The theorem at a container that is well formed but for the last byte of its magic
  number.
\<close>

theorem magic_mismatch_rejected_witness:
  "take 4 ([0x50, 0x4E, 0x47, 0x01] @ u32_le 1 @ u32_le 1 @ [4] @ u32_le 4 @ [10, 20, 30, 40])
     \<noteq> [0x50, 0x4E, 0x47, 0x00]
   \<and> read_bin_to_png raw_pil
        [''odd.bin'' \<mapsto> File ([0x50, 0x4E, 0x47, 0x01] @ u32_le 1 @ u32_le 1 @ [4] @ u32_le 4
                                  @ [10, 20, 30, 40])]
        ''odd.bin'' None True =
       ([''odd.bin'' \<mapsto> File ([0x50, 0x4E, 0x47, 0x01] @ u32_le 1 @ u32_le 1 @ [4] @ u32_le 4
                                  @ [10, 20, 30, 40])],
        Inr (False, ''Invalid BIN file format (missing PNG magic number)''))"
proof -
  let ?c = "[0x50, 0x4E, 0x47, 0x01] @ u32_le 1 @ u32_le 1 @ [4] @ u32_le 4 @ [10, 20, 30, 40 :: byte]"
  have stored: "[''odd.bin'' \<mapsto> File ?c] ''odd.bin'' = Some (File ?c)"
    by simp
  have named: "path_name ''odd.bin'' \<noteq> []"
    by (simp add: run_defs)
  have differs: "take 4 ?c \<noteq> [0x50, 0x4E, 0x47, 0x00]"
    by simp
  from magic_mismatch_rejected [where fs = "[''odd.bin'' \<mapsto> File ?c]" and bin_path = "''odd.bin''"
      and lib = raw_pil and png_path = None, OF stored named differs] differs
  show ?thesis
    by blast
qed

subsection \<open>Data size and the pixel buffer read\<close>

text \<open>
  Claim C5, as amended. The pixel buffer read is the first \<open>data_size\<close> bytes after the
  17-byte header, or all that remain when they are fewer. If
  \<^verbatim>\<open>Image.frombytes('RGBA', (width, height), pixel_data)\<close> raises on that buffer, as the
  library does for a buffer too short for \<open>width * height * 4\<close>, \<^verbatim>\<open>read_bin_to_png\<close>
  returns failure with the message of the exception and writes nothing. The data size
  field is not compared with the number of bytes remaining.
\<close>

theorem construction_failure_surfaced:
  assumes stored: "fs bin_path = Some (File (magic @ u32_le w @ u32_le h @ [m] @ u32_le data_size @ rest))"
    and fits: "w \<le> 4294967295" "h \<le> 4294967295" "data_size \<le> 4294967295"
    and out: "(case png_path of None \<Rightarrow> with_suffix bin_path ''.png'' | Some p \<Rightarrow> Inr p) = Inr out"
    and rejected: "Image_frombytes lib ''RGBA'' (w, h) (take data_size rest) = Inl e"
  shows "read_bin_to_png lib fs bin_path png_path True =
           (fs, Inr (False, ''Error converting BIN to PNG: '' @ str e))"
proof -
  have parsed: "read_block (magic @ u32_le w @ u32_le h @ [m] @ u32_le data_size @ rest) True =
                Inr (Inr (w, h, take data_size rest))"
    using fits read_block_container [of w h data_size m rest] by simp
  show ?thesis
    using read_bin_to_png_parsed [where fs = fs and bin_path = bin_path and lib = lib, OF stored out parsed]
    by (simp add: rejected)
qed

text \<open>
  The theorem at a 2 by 1 container that announces 8 pixel bytes and holds 4.
\<close>

theorem construction_failure_surfaced_witness:
  "Image_frombytes raw_pil ''RGBA'' (2, 1) (take 8 [1, 2, 3, 4]) =
     Inl (ValueError ''not enough image data'')
   \<and> read_bin_to_png raw_pil
        [''cut.bin'' \<mapsto> File (magic @ u32_le 2 @ u32_le 1 @ [4] @ u32_le 8 @ [1, 2, 3, 4])]
        ''cut.bin'' None True =
       ([''cut.bin'' \<mapsto> File (magic @ u32_le 2 @ u32_le 1 @ [4] @ u32_le 8 @ [1, 2, 3, 4])],
        Inr (False, ''Error converting BIN to PNG: not enough image data''))"
proof -
  let ?c = "magic @ u32_le 2 @ u32_le 1 @ [4] @ u32_le 8 @ [1, 2, 3, 4 :: byte]"
  have stored: "[''cut.bin'' \<mapsto> File ?c] ''cut.bin'' = Some (File ?c)"
    by simp
  have fits: "(2::nat) \<le> 4294967295" "(1::nat) \<le> 4294967295" "(8::nat) \<le> 4294967295"
    by simp_all
  have out: "(case None of None \<Rightarrow> with_suffix ''cut.bin'' ''.png'' | Some p \<Rightarrow> Inr p) = Inr ''cut.png''"
    by (simp add: run_defs)
  have rejected: "Image_frombytes raw_pil ''RGBA'' (2, 1) (take 8 [1, 2, 3, 4]) =
                  Inl (ValueError ''not enough image data'')"
    by (simp add: run_defs)
  from construction_failure_surfaced [where fs = "[''cut.bin'' \<mapsto> File ?c]"
      and bin_path = "''cut.bin''" and lib = raw_pil and out = "''cut.png''",
      OF stored fits out rejected] rejected
  show ?thesis
    by simp
qed

text \<open>
  Claim C5 as stated fails: a 1 by 1 container whose data size field says 5 while 4
  bytes remain is decoded with success, since \<^verbatim>\<open>f.read(5)\<close> returns the 4 bytes and
  they are the pixel buffer of a 1 by 1 image.
\<close>

theorem construction_failure_surfaced_counterexample:
  "length [10, 20, 30, 40 :: byte] < 5
   \<and> read_bin_to_png raw_pil
        [''a.bin'' \<mapsto> File (magic @ u32_le 1 @ u32_le 1 @ [4] @ u32_le 5 @ [10, 20, 30, 40])]
        ''a.bin'' None True =
       ([''a.bin'' \<mapsto> File (magic @ u32_le 1 @ u32_le 1 @ [4] @ u32_le 5 @ [10, 20, 30, 40]),
         ''a.png'' \<mapsto> File [4, 1, 0, 0, 0, 1, 0, 0, 0, 10, 20, 30, 40]],
        Inr (True, ''Successfully converted: a.bin -> a.png''))"
  by (simp add: run_defs)

subsection \<open>The bytes-per-pixel byte\<close>

text \<open>
  Claim C6. Replacing the byte at offset 12 of the container by any other value changes
  neither what the \<^verbatim>\<open>with\<close> block of \<^verbatim>\<open>read_bin_to_png\<close> binds (width, height,
  pixel buffer, early return or exception), nor the \<^verbatim>\<open>(success, message)\<close> result of
  \<^verbatim>\<open>read_bin_to_png\<close> with \<^verbatim>\<open>has_metadata=True\<close>, nor any file after the call other
  than the source itself.
\<close>

theorem mode_byte_ignored:
  "read_block (c[12 := b]) True = read_block c True
   \<and> snd (read_bin_to_png lib (fs(bin_path \<mapsto> File (c[12 := b]))) bin_path png_path True) =
     snd (read_bin_to_png lib (fs(bin_path \<mapsto> File c)) bin_path png_path True)
   \<and> (\<forall>q. q \<noteq> bin_path \<longrightarrow>
         fst (read_bin_to_png lib (fs(bin_path \<mapsto> File (c[12 := b]))) bin_path png_path True) q =
         fst (read_bin_to_png lib (fs(bin_path \<mapsto> File c)) bin_path png_path True) q)"
  by (simp add: read_block_mode_byte read_bin_to_png_def read_bin_to_png_try_def exists_path_def
        open_rb_def save_path_def open_wb_def
      split: sum.split prod.split option.split node.split)

text \<open>
  The theorem at a 1 by 1 container whose byte at offset 12 is 7: it is decoded as with
  the byte 4.
\<close>

theorem mode_byte_ignored_witness:
  "(magic @ u32_le 1 @ u32_le 1 @ [4] @ u32_le 4 @ [10, 20, 30, 40]) [12 := 7] =
     magic @ u32_le 1 @ u32_le 1 @ [7] @ u32_le 4 @ [10, 20, 30, 40]
   \<and> read_block (magic @ u32_le 1 @ u32_le 1 @ [7] @ u32_le 4 @ [10, 20, 30, 40]) True =
       Inr (Inr (1, 1, [10, 20, 30, 40]))
   \<and> snd (read_bin_to_png raw_pil
        [''m.bin'' \<mapsto> File (magic @ u32_le 1 @ u32_le 1 @ [7] @ u32_le 4 @ [10, 20, 30, 40])]
        ''m.bin'' None True) =
       Inr (True, ''Successfully converted: m.bin -> m.png'')
   \<and> fst (read_bin_to_png raw_pil
        [''m.bin'' \<mapsto> File (magic @ u32_le 1 @ u32_le 1 @ [7] @ u32_le 4 @ [10, 20, 30, 40])]
        ''m.bin'' None True) ''m.png'' =
       Some (File [4, 1, 0, 0, 0, 1, 0, 0, 0, 10, 20, 30, 40])"
proof -
  let ?c = "magic @ u32_le 1 @ u32_le 1 @ [4] @ u32_le 4 @ [10, 20, 30, 40 :: byte]"
  let ?d = "magic @ u32_le 1 @ u32_le 1 @ [7] @ u32_le 4 @ [10, 20, 30, 40 :: byte]"
  have upd: "?c [12 := 7] = ?d"
    by (simp add: magic_def u32_le_def)
  have block: "read_block ?c True = Inr (Inr (1, 1, [10, 20, 30, 40]))"
    by (simp add: run_defs)
  have run: "read_bin_to_png raw_pil [''m.bin'' \<mapsto> File ?c] ''m.bin'' None True =
     ([''m.bin'' \<mapsto> File ?c, ''m.png'' \<mapsto> File [4, 1, 0, 0, 0, 1, 0, 0, 0, 10, 20, 30, 40]],
      Inr (True, ''Successfully converted: m.bin -> m.png''))"
    by (simp add: run_defs)
  have other: "''m.png'' \<noteq> ''m.bin''"
    by simp
  note ignored = mode_byte_ignored [of ?c 7 raw_pil Map.empty "''m.bin''" None]
  have "read_block (?c [12 := 7]) True = read_block ?c True"
    by (rule conjunct1 [OF ignored])
  then have block': "read_block ?d True = read_block ?c True"
    unfolding upd .
  have "snd (read_bin_to_png raw_pil [''m.bin'' \<mapsto> File (?c [12 := 7])] ''m.bin'' None True) =
        snd (read_bin_to_png raw_pil [''m.bin'' \<mapsto> File ?c] ''m.bin'' None True)"
    by (rule conjunct1 [OF conjunct2 [OF ignored]])
  then have result': "snd (read_bin_to_png raw_pil [''m.bin'' \<mapsto> File ?d] ''m.bin'' None True) =
        snd (read_bin_to_png raw_pil [''m.bin'' \<mapsto> File ?c] ''m.bin'' None True)"
    unfolding upd .
  have "fst (read_bin_to_png raw_pil [''m.bin'' \<mapsto> File (?c [12 := 7])] ''m.bin'' None True) ''m.png'' =
        fst (read_bin_to_png raw_pil [''m.bin'' \<mapsto> File ?c] ''m.bin'' None True) ''m.png''"
    by (rule mp [OF spec [OF conjunct2 [OF conjunct2 [OF ignored]]] other])
  then have written': "fst (read_bin_to_png raw_pil [''m.bin'' \<mapsto> File ?d] ''m.bin'' None True) ''m.png'' =
        fst (read_bin_to_png raw_pil [''m.bin'' \<mapsto> File ?c] ''m.bin'' None True) ''m.png''"
    unfolding upd .
  have "read_block ?d True = Inr (Inr (1, 1, [10, 20, 30, 40]))"
    unfolding block' by (rule block)
  moreover have "snd (read_bin_to_png raw_pil [''m.bin'' \<mapsto> File ?d] ''m.bin'' None True) =
       Inr (True, ''Successfully converted: m.bin -> m.png'')"
    unfolding result' run by simp
  moreover have "fst (read_bin_to_png raw_pil [''m.bin'' \<mapsto> File ?d] ''m.bin'' None True) ''m.png'' =
       Some (File [4, 1, 0, 0, 0, 1, 0, 0, 0, 10, 20, 30, 40])"
    unfolding written' run by simp
  ultimately show ?thesis
    using upd by (intro conjI)
qed

subsection \<open>Missing and misnamed sources\<close>

text \<open>
  Claim C7. \<^verbatim>\<open>convert_png_to_bin\<close> returns \<open>(False, message)\<close> when the source path
  does not exist, and when it exists and its suffix, lower-cased, is not \<^verbatim>\<open>.png\<close>;
  \<^verbatim>\<open>read_bin_to_png\<close> returns \<open>(False, message)\<close> when its source path does not
  exist. Nothing is raised and the file system is unchanged.
\<close>

theorem missing_or_misnamed_source:
  "(fs missing = None \<longrightarrow>
      convert_png_to_bin lib fs missing bin_path include_metadata =
        (fs, Inr (False, ''PNG file not found: '' @ missing)))
   \<and> (fs png_path \<noteq> None \<and> lower (suffix png_path) \<noteq> ''.png'' \<longrightarrow>
      convert_png_to_bin lib fs png_path bin_path include_metadata =
        (fs, Inr (False, ''File is not a PNG: '' @ png_path)))
   \<and> (fs missing = None \<longrightarrow>
      read_bin_to_png lib fs missing png_out has_metadata =
        (fs, Inr (False, ''BIN file not found: '' @ missing)))"
  by (simp add: convert_png_to_bin_def convert_png_to_bin_try_def read_bin_to_png_def
      read_bin_to_png_try_def exists_path_def)

text \<open>
  The theorem at a file system that holds \<^verbatim>\<open>photo.jpg\<close> only.
\<close>

theorem missing_or_misnamed_source_witness:
  "[''photo.jpg'' \<mapsto> File rgba_1x1] ''nothing.png'' = None
   \<and> convert_png_to_bin raw_pil [''photo.jpg'' \<mapsto> File rgba_1x1] ''nothing.png'' None True =
       ([''photo.jpg'' \<mapsto> File rgba_1x1], Inr (False, ''PNG file not found: nothing.png''))
   \<and> [''photo.jpg'' \<mapsto> File rgba_1x1] ''photo.jpg'' \<noteq> None
   \<and> lower (suffix ''photo.jpg'') \<noteq> ''.png''
   \<and> convert_png_to_bin raw_pil [''photo.jpg'' \<mapsto> File rgba_1x1] ''photo.jpg'' None True =
       ([''photo.jpg'' \<mapsto> File rgba_1x1], Inr (False, ''File is not a PNG: photo.jpg''))
   \<and> read_bin_to_png raw_pil [''photo.jpg'' \<mapsto> File rgba_1x1] ''nothing.png'' None True =
       ([''photo.jpg'' \<mapsto> File rgba_1x1], Inr (False, ''BIN file not found: nothing.png''))"
proof -
  let ?fs = "[''photo.jpg'' \<mapsto> File rgba_1x1]"
  have absent: "?fs ''nothing.png'' = None"
    by simp
  have present: "?fs ''photo.jpg'' \<noteq> None"
    by simp
  have ext: "lower (suffix ''photo.jpg'') \<noteq> ''.png''"
    by (simp add: run_defs)
  from missing_or_misnamed_source [of ?fs "''nothing.png''" raw_pil None True "''photo.jpg''" None True]
    absent present ext
  show ?thesis
    by simp
qed

subsection \<open>Errors are returned\<close>

text \<open>
  Claim C8. For every library, file system, path and flag, each operation returns a
  \<^verbatim>\<open>(success, message)\<close> pair, never an exception; and when the body of its
  \<^verbatim>\<open>try\<close> raises \<open>e\<close>, the pair is \<open>False\<close> with the operation's prefix followed by
  \<^verbatim>\<open>str(e)\<close>.
\<close>

theorem errors_returned_not_raised:
  "(\<exists>success message.
      snd (convert_png_to_bin lib fs png_path bin_path include_metadata) = Inr (success, message))
   \<and> (\<exists>success message.
      snd (read_bin_to_png lib fs bin_path' png_path' has_metadata) = Inr (success, message))
   \<and> (\<forall>e. snd (convert_png_to_bin_try lib fs png_path bin_path include_metadata) = Inl e \<longrightarrow>
         snd (convert_png_to_bin lib fs png_path bin_path include_metadata) =
           Inr (False, ''Error converting PNG: '' @ str e))
   \<and> (\<forall>e. snd (read_bin_to_png_try lib fs bin_path' png_path' has_metadata) = Inl e \<longrightarrow>
         snd (read_bin_to_png lib fs bin_path' png_path' has_metadata) =
           Inr (False, ''Error converting BIN to PNG: '' @ str e))"
  by (auto simp: convert_png_to_bin_def read_bin_to_png_def split: prod.split sum.split)

text \<open>
  The theorem where the bodies raise: \<^verbatim>\<open>struct.pack\<close> on a pixel buffer of
  4294967296 bytes, and \<^verbatim>\<open>struct.unpack\<close> on a header cut after six bytes.
\<close>

theorem errors_returned_not_raised_witness:
  "snd (convert_png_to_bin_try raw_pil [''big.png'' \<mapsto> File (black_rgba 1073741824 1)]
          ''big.png'' None True) =
     Inl (struct_error (quoted ''I'' @ '' format requires 0 <= number <= 4294967295''))
   \<and> snd (convert_png_to_bin raw_pil [''big.png'' \<mapsto> File (black_rgba 1073741824 1)]
          ''big.png'' None True) =
     Inr (False, ''Error converting PNG: '' @ quoted ''I'' @ '' format requires 0 <= number <= 4294967295'')
   \<and> snd (read_bin_to_png_try raw_pil [''big.png'' \<mapsto> File (black_rgba 1073741824 1)]
          ''big.png'' None True) =
     Inr (False, ''Invalid BIN file format (missing PNG magic number)'')
   \<and> snd (read_bin_to_png_try raw_pil [''short.bin'' \<mapsto> File (magic @ [1, 2])]
          ''short.bin'' None True) =
     Inl (struct_error ''unpack requires a buffer of 4 bytes'')
   \<and> snd (read_bin_to_png raw_pil [''short.bin'' \<mapsto> File (magic @ [1, 2])]
          ''short.bin'' None True) =
     Inr (False, ''Error converting BIN to PNG: unpack requires a buffer of 4 bytes'')"
proof -
  let ?big = "[''big.png'' \<mapsto> File (black_rgba 1073741824 1)]"
  let ?short = "[''short.bin'' \<mapsto> File (magic @ [1, 2])]"
  have raised: "snd (convert_png_to_bin_try raw_pil ?big ''big.png'' None True) =
                Inl (struct_error (quoted ''I'' @ '' format requires 0 <= number <= 4294967295''))"
    by (simp add: run_defs length_blank)
  have returned: "snd (read_bin_to_png_try raw_pil ?big ''big.png'' None True) =
                Inr (False, ''Invalid BIN file format (missing PNG magic number)'')"
    by (simp add: run_defs)
  have raised': "snd (read_bin_to_png_try raw_pil ?short ''short.bin'' None True) =
                 Inl (struct_error ''unpack requires a buffer of 4 bytes'')"
    by (simp add: run_defs)
  from errors_returned_not_raised [of raw_pil ?big "''big.png''" None True "''big.png''" None True]
    raised
  have caught: "snd (convert_png_to_bin raw_pil ?big ''big.png'' None True) =
     Inr (False, ''Error converting PNG: '' @ str (struct_error (quoted ''I'' @ '' format requires 0 <= number <= 4294967295'')))"
    by blast
  from errors_returned_not_raised [of raw_pil ?short "''short.bin''" None True "''short.bin''" None True]
    raised'
  have caught': "snd (read_bin_to_png raw_pil ?short ''short.bin'' None True) =
     Inr (False, ''Error converting BIN to PNG: '' @ str (struct_error ''unpack requires a buffer of 4 bytes''))"
    by blast
  from raised returned raised' caught caught' show ?thesis
    by simp
qed

subsection \<open>The 1 by 1 scenario\<close>



subsection \<open>No extension check in the decoder\<close>



end
